theory Spec2Isabelle
  imports Complex_Main "HOL-Library.Word"
begin

section \<open>JavaScript values used by monitorService.ts\<close>

text \<open>
  A JavaScript string is a sequence of UTF-16 code units, and \<^verbatim>\<open>length\<close> counts
  code units. The ASCII literals of the source are written with \<open>js\<close>; the Chinese
  texts are written by their code units.
\<close>

type_synonym jsstring = "16 word list"

definition js :: "string \<Rightarrow> jsstring" where
  "js s = map (\<lambda>c. of_nat (of_char c)) s"

text \<open>
  The values \<^verbatim>\<open>JSON.parse\<close> can return and the object literals of the source. A number
  is represented by the real it denotes: the code does no arithmetic, it writes the
  literal \<^verbatim>\<open>0\<close> and hands parsed numbers through. An object is the list of its
  properties in insertion order.
\<close>

datatype jsval =
    JNull
  | JBool bool
  | JNum real
  | JStr jsstring
  | JArr "jsval list"
  | JObj "(jsstring \<times> jsval) list"

text \<open>
  What a \<^verbatim>\<open>throw\<close> carries. Every value thrown inside \<^verbatim>\<open>analyzeFrame\<close> comes from
  \<^verbatim>\<open>new Error(...)\<close> in the source, from the client library or from \<^verbatim>\<open>JSON.parse\<close>:
  an Error object, whose \<^verbatim>\<open>message\<close> is a string (the empty string when none was given).
\<close>

datatype js_error = Error (message: jsstring)

section \<open>The regular expression of line 50\<close>

text \<open>
  \<^verbatim>\<open>/^data:image\/(png|jpeg|jpg);base64,/\<close> is a sequence of a literal, an alternation
  and a literal, anchored at the start of the input. \<open>rematch r s\<close> lists, in the order a
  backtracking matcher tries them, the remainders of \<open>s\<close> after a match of \<open>r\<close> at its start.
\<close>

datatype re = Lit jsstring | Alt re re | Seq re re

fun rematch :: "re \<Rightarrow> jsstring \<Rightarrow> jsstring list" where
  "rematch (Lit p) s = (if take (length p) s = p then [drop (length p) s] else [])"
| "rematch (Alt a b) s = rematch a s @ rematch b s"
| "rematch (Seq a b) s = concat (map (rematch b) (rematch a s))"

definition data_uri_re :: re where
  "data_uri_re =
     Seq (Lit (js ''data:image/''))
       (Seq (Alt (Lit (js ''png'')) (Alt (Lit (js ''jpeg'')) (Lit (js ''jpg''))))
            (Lit (js '';base64,'')))"

text \<open>
  \<^verbatim>\<open>s.replace(/^.../, "")\<close> with a regular expression that has no \<^verbatim>\<open>g\<close> flag: the first
  match is cut out, and a string without a match is returned as it is. The expression is
  anchored, so a match starts at index 0 and what is left is the remainder after it.
\<close>

definition replace_anchored :: "re \<Rightarrow> jsstring \<Rightarrow> jsstring" where
  "replace_anchored r s = (case rematch r s of [] \<Rightarrow> s | rest # _ \<Rightarrow> rest)"

section \<open>Names imported by the source\<close>

text \<open>
  Modelled from the spec: the enum \<^verbatim>\<open>FocusStatus\<close> of \<^verbatim>\<open>../types\<close>, which is not among
  the sources. The spec's data model lists its four members, and its example response
  \<^verbatim>\<open>{"status":"FOCUSED",...}\<close> shows that a member's value is the string of its name.
\<close>

datatype FocusStatus = FOCUSED | DISTRACTED | ABSENT | ERROR

fun FocusStatus_value :: "FocusStatus \<Rightarrow> jsval" where
  "FocusStatus_value FOCUSED = JStr (js ''FOCUSED'')"
| "FocusStatus_value DISTRACTED = JStr (js ''DISTRACTED'')"
| "FocusStatus_value ABSENT = JStr (js ''ABSENT'')"
| "FocusStatus_value ERROR = JStr (js ''ERROR'')"

text \<open>
  The members of the client library's enum \<^verbatim>\<open>Type\<close> that the schema uses; their values
  are the strings of their names.
\<close>

datatype Type = OBJECT | STRING | NUMBER

fun Type_value :: "Type \<Rightarrow> jsval" where
  "Type_value OBJECT = JStr (js ''OBJECT'')"
| "Type_value STRING = JStr (js ''STRING'')"
| "Type_value NUMBER = JStr (js ''NUMBER'')"

text \<open>
  \<^verbatim>\<open>new GoogleGenAI({ apiKey: apiKey })\<close>: the handle keeps the key it was built with.
\<close>

record GoogleGenAI =
  apiKey :: jsstring

section \<open>The request\<close>

datatype part =
    InlineData (mimeType: jsstring) (data: jsstring)
  | Text jsstring

record request =
  model :: jsstring
  parts :: "part list"
  responseMimeType :: jsstring
  responseSchema :: jsval
  systemInstruction :: jsstring

definition responseSchema_const :: jsval where
  "responseSchema_const =
     JObj [
       (js ''type'', Type_value OBJECT),
       (js ''properties'', JObj [
          (js ''status'', JObj [
             (js ''type'', Type_value STRING),
             (js ''enum'', JArr [FocusStatus_value FOCUSED, FocusStatus_value DISTRACTED,
                                 FocusStatus_value ABSENT]),
             (js ''description'', JStr (js ''The assessed state of the student.''))]),
          (js ''message'', JObj [
             (js ''type'', Type_value STRING),
             (js ''description'', JStr (js
                ''A short, encouraging or correcting message in Chinese (Mandarin) suitable for a child.''))]),
          (js ''confidence'', JObj [
             (js ''type'', Type_value NUMBER),
             (js ''description'', JStr (js ''Confidence level between 0 and 1.''))])]),
       (js ''required'', JArr [JStr (js ''status''), JStr (js ''message''),
                               JStr (js ''confidence'')])]"

text \<open>
  The template literal of lines 67 to 74: its line breaks are line feeds, each
  continuation line keeps its twelve leading spaces, and the quoted Chinese phrases are
  given by their code units.
\<close>

definition prompt :: jsstring where
  "prompt =
     js ''Analyze this image of a student doing homework. '' @ [0x0A] @
     js ''            Determine if they are FOCUSED (looking at paper/book, writing, reading), '' @ [0x0A] @
     js ''            DISTRACTED (looking away, playing with toys, sleeping, using phone), '' @ [0x0A] @
     js ''            or ABSENT (empty chair).'' @ [0x0A] @
     js ''            Provide a short voice message text in Chinese.'' @ [0x0A] @
     js ''            If FOCUSED, say something encouraging like '' @
       [0x22, 0x5F88, 0x68D2, 0xFF0C, 0x7EE7, 0x7EED, 0x4FDD, 0x6301, 0x22] @ js ''.'' @ [0x0A] @
     js ''            If DISTRACTED, say something gentle like '' @
       [0x22, 0x8BF7, 0x4E13, 0x5FC3, 0x5199, 0x4F5C, 0x4E1A, 0x54E6, 0x22] @ js ''.'' @ [0x0A] @
     js ''            If ABSENT, say '' @
       [0x22, 0x4EBA, 0x53BB, 0x54EA, 0x91CC, 0x4E86, 0x22] @ js ''.''"

definition mk_request :: "jsstring \<Rightarrow> request" where
  "mk_request cleanBase64 =
     \<lparr> model = js ''gemini-2.5-flash'',
       parts = [InlineData (js ''image/jpeg'') cleanBase64, Text prompt],
       responseMimeType = js ''application/json'',
       responseSchema = responseSchema_const,
       systemInstruction = js ''You are a homework monitoring assistant. Be strict but kind.'' \<rparr>"

section \<open>What surrounds the module\<close>

text \<open>
  \<^verbatim>\<open>response.text\<close> is a string or \<^verbatim>\<open>undefined\<close>; the field is \<open>response_text\<close> here.
\<close>

record response =
  response_text :: "jsstring option"

text \<open>
  One call of \<^verbatim>\<open>analyzeFrame\<close> sees: the value of \<^verbatim>\<open>process.env.API_KEY\<close> (a string or
  \<^verbatim>\<open>undefined\<close>), what the awaited \<^verbatim>\<open>client.models.generateContent(...)\<close> settles to
  (a response, or a thrown error), and \<^verbatim>\<open>JSON.parse\<close> (a value, or a thrown error).
  The theorems hold for every such world, so for the real service and the real parser.
\<close>

record world =
  API_KEY :: "jsstring option"
  generateContent :: "GoogleGenAI \<Rightarrow> request \<Rightarrow> js_error + response"
  JSON_parse :: "jsstring \<Rightarrow> js_error + jsval"

text \<open>
  The module's only variable, \<^verbatim>\<open>let ai: GoogleGenAI | null = null\<close>.
\<close>

record module_state =
  ai :: "GoogleGenAI option"

definition initial :: module_state where
  "initial = \<lparr> ai = None \<rparr>"

text \<open>
  What a call does besides returning: it builds a client, it issues a request with a
  client, it writes an error to the console.
\<close>

datatype event =
    Constructed GoogleGenAI
  | Requested GoogleGenAI request
  | Logged js_error

text \<open>
  \<^verbatim>\<open>!x\<close> for a string or \<^verbatim>\<open>undefined\<close>: true for \<^verbatim>\<open>undefined\<close> and for the empty string.
\<close>

definition falsy :: "jsstring option \<Rightarrow> bool" where
  "falsy x = (case x of None \<Rightarrow> True | Some t \<Rightarrow> t = [])"

section \<open>getAIClient\<close>

definition getAIClient ::
  "world \<Rightarrow> module_state \<Rightarrow> (js_error + GoogleGenAI) \<times> module_state \<times> event list" where
  "getAIClient w s =
     (case ai s of
        Some c \<Rightarrow> (Inr c, s, [])
      | None \<Rightarrow>
          (if falsy (API_KEY w)
           then (Inl (Error (js ''API Key is missing. Please check Vercel settings.'')), s, [])
           else let c = \<lparr> apiKey = the (API_KEY w) \<rparr>
                in (Inr c, s\<lparr> ai := Some c \<rparr>, [Constructed c])))"

section \<open>analyzeFrame\<close>

definition invalid_frame :: jsstring where
  "invalid_frame = js ''Invalid frame captured (empty data)''"

text \<open>
  The \<^verbatim>\<open>try\<close> block, lines 52 to 89: the thrown error or the returned value, the module
  state and the events so far.
\<close>

definition analyzeFrame_try ::
  "world \<Rightarrow> jsstring \<Rightarrow> module_state \<Rightarrow> (js_error + jsval) \<times> module_state \<times> event list" where
  "analyzeFrame_try w cleanBase64 s =
     (case getAIClient w s of
        (Inl e, s', evs) \<Rightarrow> (Inl e, s', evs)
      | (Inr client, s', evs) \<Rightarrow>
          (let req = mk_request cleanBase64;
               evs' = evs @ [Requested client req]
           in case generateContent w client req of
                Inl e \<Rightarrow> (Inl e, s', evs')
              | Inr response \<Rightarrow>
                  (if falsy (response_text response)
                   then (Inl (Error (js ''No response from AI'')), s', evs')
                   else (JSON_parse w (the (response_text response)), s', evs'))))"

text \<open>
  The object literal of lines 100 to 104; the fallback of \<^verbatim>\<open>error.message || ...\<close> is
  taken when the message is the empty string.
\<close>

definition fallback_message :: jsstring where
  "fallback_message = [0x8FDE, 0x63A5, 0x20, 0x41, 0x49, 0x20, 0x5931, 0x8D25]"

definition error_result :: "js_error \<Rightarrow> jsval" where
  "error_result error =
     JObj [
       (js ''status'', FocusStatus_value ERROR),
       (js ''message'', JStr (if message error = [] then fallback_message else message error)),
       (js ''confidence'', JNum 0)]"

text \<open>
  The \<^verbatim>\<open>catch\<close> block, lines 91 to 105.
\<close>

definition analyzeFrame_catch :: "js_error \<Rightarrow> (js_error + jsval) \<times> event list" where
  "analyzeFrame_catch error =
     (if message error = invalid_frame then Inl error else Inr (error_result error),
      [Logged error])"

text \<open>
  \<^verbatim>\<open>analyzeFrame\<close>: \<open>Inl\<close> is the promise rejected with an error, \<open>Inr\<close> the promise
  fulfilled with a value.
\<close>

definition analyzeFrame ::
  "world \<Rightarrow> jsstring \<Rightarrow> module_state \<Rightarrow> (js_error + jsval) \<times> module_state \<times> event list" where
  "analyzeFrame w base64Image s =
     (if base64Image = [] \<or> base64Image = js ''data:,'' \<or> length base64Image < 100
      then (Inl (Error invalid_frame), s, [])
      else
        let cleanBase64 = replace_anchored data_uri_re base64Image
        in case analyzeFrame_try w cleanBase64 s of
             (Inr result, s', evs) \<Rightarrow> (Inr result, s', evs)
           | (Inl error, s', evs) \<Rightarrow>
               (case analyzeFrame_catch error of (r, evs') \<Rightarrow> (r, s', evs @ evs')))"

section \<open>Calls in sequence\<close>

text \<open>
  The module state lives as long as the process: each call of \<^verbatim>\<open>analyzeFrame\<close> starts
  from the state the call before left. Every call has its own world, so the credential
  and the service may change from one call to the next. \<open>run\<close> gives the results in
  order, the last state and all events.
\<close>

fun run ::
  "(world \<times> jsstring) list \<Rightarrow> module_state \<Rightarrow> (js_error + jsval) list \<times> module_state \<times> event list" where
  "run [] s = ([], s, [])"
| "run ((w, base64Image) # calls) s =
     (case analyzeFrame w base64Image s of
        (r, s', evs) \<Rightarrow>
          (case run calls s' of (rs, s'', evs') \<Rightarrow> (r # rs, s'', evs @ evs')))"

text \<open>
  The state in which a call finds the module after the calls before it.
\<close>

definition state_after :: "(world \<times> jsstring) list \<Rightarrow> module_state \<Rightarrow> module_state" where
  "state_after calls s = fst (snd (run calls s))"

section \<open>Reading results and events\<close>

text \<open>
  \<open>property k v\<close> is the property \<open>k\<close> of an object \<open>v\<close>, if \<open>v\<close> is an object that has it.
\<close>

definition property :: "jsstring \<Rightarrow> jsval \<Rightarrow> jsval option" where
  "property k v = (case v of JObj ps \<Rightarrow> map_of ps k | _ \<Rightarrow> None)"

text \<open>
  The image payloads that went to the service, and the clients that were built.
\<close>

fun payloads :: "event list \<Rightarrow> jsstring list" where
  "payloads [] = []"
| "payloads (Requested c r # evs) = [d. InlineData m d \<leftarrow> parts r] @ payloads evs"
| "payloads (_ # evs) = payloads evs"

fun constructions :: "event list \<Rightarrow> GoogleGenAI list" where
  "constructions [] = []"
| "constructions (Constructed c # evs) = c # constructions evs"
| "constructions (_ # evs) = constructions evs"

fun requesters :: "event list \<Rightarrow> GoogleGenAI list" where
  "requesters [] = []"
| "requesters (Requested c r # evs) = c # requesters evs"
| "requesters (_ # evs) = requesters evs"

section \<open>The words of the specification\<close>

text \<open>
  An input passes validation when the guard of line 46 lets it through: it is not empty,
  it is not the placeholder and it has at least 100 code units.
\<close>

definition passes_validation :: "jsstring \<Rightarrow> bool" where
  "passes_validation base64Image =
     (base64Image \<noteq> [] \<and> base64Image \<noteq> js ''data:,'' \<and> 100 \<le> length base64Image)"

text \<open>
  The three prefixes \<^verbatim>\<open>data:image/{png,jpeg,jpg};base64,\<close> of the specification.
\<close>

definition data_uri_prefixes :: "jsstring list" where
  "data_uri_prefixes =
     [js ''data:image/png;base64,'', js ''data:image/jpeg;base64,'', js ''data:image/jpg;base64,'']"

text \<open>
  The specification's AnalysisResult, as far as its status and its confidence go: the
  status is one of the four members of \<open>FocusStatus\<close> and the confidence is a number
  in the closed interval from 0 to 1.
\<close>

definition AnalysisResult_ok :: "jsval \<Rightarrow> bool" where
  "AnalysisResult_ok v =
     ((case property (js ''status'') v of
         Some st \<Rightarrow> st \<in> FocusStatus_value ` {FOCUSED, DISTRACTED, ABSENT, ERROR}
       | None \<Rightarrow> False) \<and>
      (case property (js ''confidence'') v of
         Some (JNum x) \<Rightarrow> 0 \<le> x \<and> x \<le> 1
       | _ \<Rightarrow> False))"

section \<open>Example frames, responses and worlds\<close>

text \<open>
  A frame of 128 characters without a prefix, and the same payload behind each prefix
  that a canvas produces.
\<close>

definition payload_example :: jsstring where
  "payload_example = js ''/9j/4AAQSkZJRgABAQAAAQABAAD/2wBD'' @ replicate 96 0x41"

definition frame_jpeg :: jsstring where
  "frame_jpeg = js ''data:image/jpeg;base64,'' @ payload_example"

definition frame_png :: jsstring where
  "frame_png = js ''data:image/png;base64,'' @ payload_example"

definition frame_webp :: jsstring where
  "frame_webp = js ''data:image/webp;base64,'' @ payload_example"

text \<open>
  The response of the specification's example, \<^verbatim>\<open>{"status":"FOCUSED",...,"confidence":0.92}\<close>,
  and the value it parses to.
\<close>

definition focused_text :: jsstring where
  \<open>focused_text =
     js ''{"status":"FOCUSED","message":"'' @
     [0x5F88, 0x68D2, 0xFF0C, 0x7EE7, 0x7EED, 0x4FDD, 0x6301] @
     js ''","confidence":0.92}''\<close>

definition focused_value :: jsval where
  "focused_value =
     JObj [
       (js ''status'', JStr (js ''FOCUSED'')),
       (js ''message'', JStr [0x5F88, 0x68D2, 0xFF0C, 0x7EE7, 0x7EED, 0x4FDD, 0x6301]),
       (js ''confidence'', JNum 0.92)]"

text \<open>
  A response that the schema of the request allows (the schema bounds the confidence only
  in its description): \<^verbatim>\<open>{"status":"FOCUSED","message":"ok","confidence":5}\<close>.
\<close>

definition overconfident_text :: jsstring where
  \<open>overconfident_text = js ''{"status":"FOCUSED","message":"ok","confidence":5}''\<close>

definition overconfident_value :: jsval where
  "overconfident_value =
     JObj [
       (js ''status'', JStr (js ''FOCUSED'')),
       (js ''message'', JStr (js ''ok'')),
       (js ''confidence'', JNum 5)]"

text \<open>
  \<^verbatim>\<open>JSON.parse\<close> on the texts of the examples: the two texts above parse to their
  values, and the text \<^verbatim>\<open><html>\<close> is no JSON. No example parses any other text.
\<close>

definition JSON_parse_examples :: "jsstring \<Rightarrow> js_error + jsval" where
  "JSON_parse_examples t =
     (if t = focused_text then Inr focused_value
      else if t = overconfident_text then Inr overconfident_value
      else Inl (Error (js ''Unexpected token < in JSON at position 0'')))"

text \<open>
  A world without a credential; a world with a credential whose service answers with a
  given text, or with none; a world with a credential whose request fails with a given
  error.
\<close>

definition world_unset :: world where
  "world_unset =
     \<lparr> API_KEY = None,
       generateContent = (\<lambda>c r. Inl (Error (js ''fetch failed''))),
       JSON_parse = JSON_parse_examples \<rparr>"

definition world_answering :: "jsstring option \<Rightarrow> world" where
  "world_answering t =
     \<lparr> API_KEY = Some (js ''example-key''),
       generateContent = (\<lambda>c r. Inr \<lparr> response_text = t \<rparr>),
       JSON_parse = JSON_parse_examples \<rparr>"

definition world_failing :: "js_error \<Rightarrow> world" where
  "world_failing e =
     \<lparr> API_KEY = Some (js ''example-key''),
       generateContent = (\<lambda>c r. Inl e),
       JSON_parse = JSON_parse_examples \<rparr>"

section \<open>Facts about the parts\<close>

lemma js_Nil [simp]: "js [] = []"
  by (simp add: js_def)

lemma js_append: "js (a @ b) = js a @ js b"
  by (simp add: js_def)

lemma length_js [simp]: "length (js s) = length s"
  by (simp add: js_def)

lemma api_key_missing_not_invalid:
  "js ''API Key is missing. Please check Vercel settings.'' \<noteq> invalid_frame"
  by (simp add: invalid_frame_def js_def)

lemma no_response_not_invalid: "js ''No response from AI'' \<noteq> invalid_frame"
  by (simp add: invalid_frame_def js_def)

lemma falsy_iff: "falsy x \<longleftrightarrow> x = None \<or> x = Some []"
  by (simp add: falsy_def split: option.splits)

lemma initial_ai [simp]: "ai initial = None"
  by (simp add: initial_def)


subsection \<open>The regular expression\<close>

lemma rematch_Lit_set: "r \<in> set (rematch (Lit p) s) \<longleftrightarrow> s = p @ r"
proof
  assume "r \<in> set (rematch (Lit p) s)"
  then have "take (length p) s = p" and "r = drop (length p) s"
    by (auto split: if_splits)
  then show "s = p @ r"
    using append_take_drop_id [of "length p" s] by simp
next
  assume "s = p @ r"
  then show "r \<in> set (rematch (Lit p) s)" by simp
qed

lemma rematch_Alt_set:
  "r \<in> set (rematch (Alt a b) s) \<longleftrightarrow> r \<in> set (rematch a s) \<or> r \<in> set (rematch b s)"
  by simp

lemma rematch_Seq_set:
  "r \<in> set (rematch (Seq a b) s) \<longleftrightarrow> (\<exists>m. m \<in> set (rematch a s) \<and> r \<in> set (rematch b m))"
  by auto

lemma data_uri_prefixes_split:
  "data_uri_prefixes =
     [js ''data:image/'' @ js ''png'' @ js '';base64,'',
      js ''data:image/'' @ js ''jpeg'' @ js '';base64,'',
      js ''data:image/'' @ js ''jpg'' @ js '';base64,'']"
  by (simp add: data_uri_prefixes_def js_def)

lemma rematch_data_uri_re:
  "r \<in> set (rematch data_uri_re s) \<longleftrightarrow> (\<exists>p \<in> set data_uri_prefixes. s = p @ r)"
proof -
  have "r \<in> set (rematch data_uri_re s) \<longleftrightarrow>
      (\<exists>m. s = js ''data:image/'' @ m \<and>
        (\<exists>m'. (m = js ''png'' @ m' \<or> m = js ''jpeg'' @ m' \<or> m = js ''jpg'' @ m') \<and>
              m' = js '';base64,'' @ r))"
    by (simp only: data_uri_re_def rematch_Seq_set rematch_Alt_set rematch_Lit_set)
  also have "\<dots> \<longleftrightarrow> (\<exists>p \<in> set data_uri_prefixes. s = p @ r)"
    unfolding data_uri_prefixes_split by auto
  finally show ?thesis .
qed

lemma replace_strips_prefix:
  "p \<in> set data_uri_prefixes \<Longrightarrow> replace_anchored data_uri_re (p @ rest) = rest"
  by (auto simp: data_uri_prefixes_def replace_anchored_def data_uri_re_def js_def)

lemma replace_keeps_other:
  assumes "\<not> (\<exists>p \<in> set data_uri_prefixes. \<exists>rest. s = p @ rest)"
  shows "replace_anchored data_uri_re s = s"
proof (cases "rematch data_uri_re s")
  case Nil
  then show ?thesis by (simp add: replace_anchored_def)
next
  case (Cons r rs)
  then have "r \<in> set (rematch data_uri_re s)" by simp
  then have "\<exists>p \<in> set data_uri_prefixes. s = p @ r" by (simp only: rematch_data_uri_re)
  with assms show ?thesis by blast
qed


subsection \<open>getAIClient\<close>

lemma getAIClient_cached: "ai s = Some c \<Longrightarrow> getAIClient w s = (Inr c, s, [])"
  by (simp add: getAIClient_def)

lemma getAIClient_missing:
  "ai s = None \<Longrightarrow> falsy (API_KEY w) \<Longrightarrow>
   getAIClient w s =
     (Inl (Error (js ''API Key is missing. Please check Vercel settings.'')), s, [])"
  by (simp add: getAIClient_def)

lemma getAIClient_Inl:
  "getAIClient w s = (Inl e, s', evs) \<Longrightarrow>
   e = Error (js ''API Key is missing. Please check Vercel settings.'') \<and> s' = s \<and> evs = [] \<and>
   ai s = None \<and> falsy (API_KEY w)"
  by (auto simp: getAIClient_def Let_def split: option.splits if_splits)

lemma getAIClient_Inr: "getAIClient w s = (Inr c, s', evs) \<Longrightarrow> ai s' = Some c"
  by (auto simp: getAIClient_def Let_def split: option.splits if_splits)

subsection \<open>The paths through analyzeFrame\<close>

lemma analyzeFrame_invalid:
  "\<not> passes_validation img \<Longrightarrow> analyzeFrame w img s = (Inl (Error invalid_frame), s, [])"
  by (auto simp: analyzeFrame_def passes_validation_def)

lemma analyzeFrame_acquisition_fails:
  assumes "passes_validation img" and "getAIClient w s = (Inl e, s', evs)"
  shows "analyzeFrame w img s = (Inr (error_result e), s', evs @ [Logged e])"
proof -
  from assms(2) have "message e \<noteq> invalid_frame"
    using api_key_missing_not_invalid by (auto dest: getAIClient_Inl)
  with assms show ?thesis
    by (simp add: analyzeFrame_def analyzeFrame_try_def analyzeFrame_catch_def
        passes_validation_def)
qed

lemma analyzeFrame_request_fails:
  assumes "passes_validation img" and "getAIClient w s = (Inr c, s', evs)"
    and "generateContent w c (mk_request (replace_anchored data_uri_re img)) = Inl e"
  shows "analyzeFrame w img s =
     (if message e = invalid_frame then Inl e else Inr (error_result e), s',
      evs @ [Requested c (mk_request (replace_anchored data_uri_re img)), Logged e])"
  using assms
  by (simp add: analyzeFrame_def analyzeFrame_try_def analyzeFrame_catch_def
      passes_validation_def Let_def)

lemma analyzeFrame_no_text:
  assumes "passes_validation img" and "getAIClient w s = (Inr c, s', evs)"
    and "generateContent w c (mk_request (replace_anchored data_uri_re img)) = Inr response"
    and "falsy (response_text response)"
  shows "analyzeFrame w img s =
     (Inr (error_result (Error (js ''No response from AI''))), s',
      evs @ [Requested c (mk_request (replace_anchored data_uri_re img)),
             Logged (Error (js ''No response from AI''))])"
  using assms no_response_not_invalid
  by (simp add: analyzeFrame_def analyzeFrame_try_def analyzeFrame_catch_def
      passes_validation_def Let_def)

lemma analyzeFrame_parse_fails:
  assumes "passes_validation img" and "getAIClient w s = (Inr c, s', evs)"
    and "generateContent w c (mk_request (replace_anchored data_uri_re img)) = Inr response"
    and "response_text response = Some t" and "t \<noteq> []"
    and "JSON_parse w t = Inl e"
  shows "analyzeFrame w img s =
     (if message e = invalid_frame then Inl e else Inr (error_result e), s',
      evs @ [Requested c (mk_request (replace_anchored data_uri_re img)), Logged e])"
  using assms
  by (simp add: analyzeFrame_def analyzeFrame_try_def analyzeFrame_catch_def
      passes_validation_def Let_def falsy_def)

lemma analyzeFrame_parsed:
  assumes "passes_validation img" and "getAIClient w s = (Inr c, s', evs)"
    and "generateContent w c (mk_request (replace_anchored data_uri_re img)) = Inr response"
    and "response_text response = Some t" and "t \<noteq> []"
    and "JSON_parse w t = Inr v"
  shows "analyzeFrame w img s =
     (Inr v, s', evs @ [Requested c (mk_request (replace_anchored data_uri_re img))])"
  using assms
  by (simp add: analyzeFrame_def analyzeFrame_try_def analyzeFrame_catch_def
      passes_validation_def Let_def falsy_def)

lemma getAIClient_payloads: "getAIClient w s = (r, s', evs) \<Longrightarrow> payloads evs = []"
  by (auto simp: getAIClient_def Let_def split: option.splits if_splits)

lemma analyzeFrame_events:
  assumes "passes_validation img" and "getAIClient w s = (Inr c, s', evs)"
  shows "\<exists>tl. snd (snd (analyzeFrame w img s)) =
           evs @ Requested c (mk_request (replace_anchored data_uri_re img)) # tl \<and>
         (tl = [] \<or> (\<exists>e. tl = [Logged e]))"
  using assms
  by (auto simp: analyzeFrame_def analyzeFrame_try_def analyzeFrame_catch_def
      passes_validation_def Let_def split: sum.splits)

lemma analyzeFrame_payloads:
  assumes "passes_validation img" and "getAIClient w s = (Inr c, s', evs)"
  shows "payloads (snd (snd (analyzeFrame w img s))) = [replace_anchored data_uri_re img]"
proof -
  from analyzeFrame_events [OF assms] obtain tl where
    ev: "snd (snd (analyzeFrame w img s)) =
           evs @ Requested c (mk_request (replace_anchored data_uri_re img)) # tl"
    and tl: "tl = [] \<or> (\<exists>e. tl = [Logged e])" by blast
  have app: "payloads (xs @ ys) = payloads xs @ payloads ys" for xs ys
    by (induction xs rule: payloads.induct) simp_all
  from tl have "payloads tl = []" by auto
  with ev getAIClient_payloads [OF assms(2)] show ?thesis
    by (simp add: app mk_request_def)
qed

subsection \<open>Calls without a credential\<close>

lemma analyzeFrame_unset:
  assumes "ai s = None" and "falsy (API_KEY w)" and "passes_validation img"
  shows "analyzeFrame w img s =
     (Inr (JObj [(js ''status'', JStr (js ''ERROR'')),
                 (js ''message'', JStr (js ''API Key is missing. Please check Vercel settings.'')),
                 (js ''confidence'', JNum 0)]),
      s, [Logged (Error (js ''API Key is missing. Please check Vercel settings.''))])"
  using analyzeFrame_acquisition_fails [OF assms(3) getAIClient_missing [OF assms(1,2)]]
  by (simp add: error_result_def js_def)

lemma analyzeFrame_unset_state:
  assumes "ai s = None" and "falsy (API_KEY w)"
  shows "fst (snd (analyzeFrame w img s)) = s"
proof (cases "passes_validation img")
  case True
  from analyzeFrame_unset [OF assms True] show ?thesis by simp
next
  case False
  then show ?thesis by (simp add: analyzeFrame_invalid)
qed

lemma state_after_Nil [simp]: "state_after [] s = s"
  by (simp add: state_after_def)

lemma state_after_Cons:
  "state_after ((w, img) # calls) s = state_after calls (fst (snd (analyzeFrame w img s)))"
  by (simp add: state_after_def split: prod.splits)

lemma state_after_unset:
  "\<forall>(w, img) \<in> set calls. falsy (API_KEY w) \<Longrightarrow> ai s = None \<Longrightarrow> state_after calls s = s"
proof (induction calls arbitrary: s)
  case Nil
  then show ?case by simp
next
  case (Cons call calls)
  obtain w img where call: "call = (w, img)" by (cases call)
  with Cons.prems have "falsy (API_KEY w)" by simp
  then have "fst (snd (analyzeFrame w img s)) = s"
    using Cons.prems(2) by (simp add: analyzeFrame_unset_state)
  with Cons show ?case by (simp add: call state_after_Cons)
qed


subsection \<open>Calls with a cached client\<close>

lemma analyzeFrame_cached:
  assumes "ai s = Some c"
  shows "fst (snd (analyzeFrame w img s)) = s \<and>
         constructions (snd (snd (analyzeFrame w img s))) = [] \<and>
         set (requesters (snd (snd (analyzeFrame w img s)))) \<subseteq> {c}"
  using assms
  by (auto simp: analyzeFrame_def analyzeFrame_try_def analyzeFrame_catch_def getAIClient_def
      Let_def split: sum.splits)

lemma constructions_append: "constructions (xs @ ys) = constructions xs @ constructions ys"
  by (induction xs rule: constructions.induct) simp_all

lemma requesters_append: "requesters (xs @ ys) = requesters xs @ requesters ys"
  by (induction xs rule: requesters.induct) simp_all

lemma run_cached:
  "ai s = Some c \<Longrightarrow>
   fst (snd (run calls s)) = s \<and> constructions (snd (snd (run calls s))) = [] \<and>
   set (requesters (snd (snd (run calls s)))) \<subseteq> {c}"
proof (induction calls)
  case Nil
  then show ?case by simp
next
  case (Cons call calls)
  obtain w img where call: "call = (w, img)" by (cases call)
  obtain r s1 evs where a: "analyzeFrame w img s = (r, s1, evs)" by (cases "analyzeFrame w img s")
  with analyzeFrame_cached [OF Cons.prems, of w img]
  have s1: "s1 = s" and evs: "constructions evs = []" "set (requesters evs) \<subseteq> {c}" by simp_all
  obtain rs s2 evs' where b: "run calls s = (rs, s2, evs')" by (cases "run calls s")
  with Cons have "s2 = s" "constructions evs' = []" "set (requesters evs') \<subseteq> {c}" by simp_all
  with a b s1 evs show ?case
    by (simp add: call constructions_append requesters_append)
qed


subsection \<open>The failure result\<close>

lemma error_result_ok:
  "property (js ''status'') (error_result e) = Some (JStr (js ''ERROR''))"
  "property (js ''confidence'') (error_result e) = Some (JNum 0)"
  "AnalysisResult_ok (error_result e)"
  by (simp_all add: AnalysisResult_ok_def error_result_def property_def js_def)


subsection \<open>The examples\<close>

lemma frames_pass_validation:
  "passes_validation payload_example" "passes_validation frame_jpeg"
  "passes_validation frame_png" "passes_validation frame_webp"
  by (simp_all add: passes_validation_def payload_example_def frame_jpeg_def frame_png_def
      frame_webp_def js_def)

lemma getAIClient_world_answering:
  "getAIClient (world_answering t) initial =
     (Inr \<lparr> apiKey = js ''example-key'' \<rparr>, \<lparr> ai = Some \<lparr> apiKey = js ''example-key'' \<rparr> \<rparr>,
      [Constructed \<lparr> apiKey = js ''example-key'' \<rparr>])"
  by (simp add: getAIClient_def world_answering_def initial_def falsy_def Let_def js_def)

lemma getAIClient_world_failing:
  "getAIClient (world_failing e) initial =
     (Inr \<lparr> apiKey = js ''example-key'' \<rparr>, \<lparr> ai = Some \<lparr> apiKey = js ''example-key'' \<rparr> \<rparr>,
      [Constructed \<lparr> apiKey = js ''example-key'' \<rparr>])"
  by (simp add: getAIClient_def world_failing_def initial_def falsy_def Let_def js_def)

lemma generateContent_world_answering:
  "generateContent (world_answering t) c q = Inr \<lparr> response_text = t \<rparr>"
  by (simp add: world_answering_def)

lemma generateContent_world_failing: "generateContent (world_failing e) c q = Inl e"
  by (simp add: world_failing_def)

lemma frame_webp_no_prefix:
  "\<nexists>p rest. p \<in> set data_uri_prefixes \<and> frame_webp = p @ rest"
  by (auto simp: data_uri_prefixes_def frame_webp_def js_def)

lemma payload_example_no_prefix:
  "\<nexists>p rest. p \<in> set data_uri_prefixes \<and> payload_example = p @ rest"
  by (auto simp: data_uri_prefixes_def payload_example_def js_def)

lemma JSON_parse_examples_simps:
  "JSON_parse_examples focused_text = Inr focused_value"
  "JSON_parse_examples overconfident_text = Inr overconfident_value"
  "JSON_parse_examples (js ''<html>'') = Inl (Error (js ''Unexpected token < in JSON at position 0''))"
  by (simp_all add: JSON_parse_examples_def focused_text_def overconfident_text_def js_def)

lemma example_texts_not_empty: "focused_text \<noteq> []" "overconfident_text \<noteq> []" "js ''<html>'' \<noteq> []"
  by (simp_all add: focused_text_def overconfident_text_def js_def)

lemma JSON_parse_world_answering: "JSON_parse (world_answering t) = JSON_parse_examples"
  by (simp add: world_answering_def)

lemma world_unset_falsy: "falsy (API_KEY world_unset)" "API_KEY world_unset = None"
  by (simp_all add: world_unset_def falsy_def)

lemma getAIClient_world_unset:
  "getAIClient world_unset initial =
     (Inl (Error (js ''API Key is missing. Please check Vercel settings.'')), initial, [])"
  by (rule getAIClient_missing) (simp_all add: world_unset_falsy(1))

lemma overconfident_not_ok: "\<not> AnalysisResult_ok overconfident_value"
  by (simp add: AnalysisResult_ok_def overconfident_value_def property_def js_def)


section \<open>Input validation\<close>

text \<open>
  Claim C2. For every input string that is empty, that is the placeholder \<^verbatim>\<open>data:,\<close> or
  that is shorter than 100 characters, \<^verbatim>\<open>analyzeFrame\<close> raises the error with the message
  \<^verbatim>\<open>Invalid frame captured (empty data)\<close>, whatever the world and the module state are. It
  does so before anything else: the module state is as it was, so no client was built
  and cached, and the call has no event, so no client was built, no request was issued
  and nothing was awaited.
\<close>

theorem invalid_input_rejected:
  "base64Image = [] \<or> base64Image = js ''data:,'' \<or> length base64Image < 100 \<Longrightarrow>
   analyzeFrame w base64Image s =
     (Inl (Error (js ''Invalid frame captured (empty data)'')), s, [])"
  by (simp add: analyzeFrame_def invalid_frame_def)

theorem invalid_input_rejected_witness:
  "analyzeFrame (world_answering (Some focused_text)) [] initial =
     (Inl (Error (js ''Invalid frame captured (empty data)'')), initial, []) \<and>
   analyzeFrame (world_answering (Some focused_text)) (js ''data:,'') initial =
     (Inl (Error (js ''Invalid frame captured (empty data)'')), initial, []) \<and>
   length (replicate 99 (0x41 :: 16 word)) < 100 \<and>
   analyzeFrame (world_answering (Some focused_text)) (replicate 99 0x41) initial =
     (Inl (Error (js ''Invalid frame captured (empty data)'')), initial, [])"
  using invalid_input_rejected [of "[]" "world_answering (Some focused_text)" initial]
    invalid_input_rejected [of "js ''data:,''" "world_answering (Some focused_text)" initial]
    invalid_input_rejected [of "replicate 99 0x41" "world_answering (Some focused_text)" initial]
  by simp

section \<open>The empty response\<close>

text \<open>
  Claim C6. If the service returns no text payload (\<^verbatim>\<open>response.text\<close> is absent or is the
  empty string), \<^verbatim>\<open>analyzeFrame\<close> returns the result with status ERROR, the message
  \<^verbatim>\<open>No response from AI\<close> and confidence 0: the error raised for the empty response stays
  inside the function. The service returns only when the input passed validation and a
  client was there to ask it.
\<close>

theorem empty_response_gives_error_result:
  assumes "passes_validation base64Image"
    and "getAIClient w s = (Inr client, s', evs)"
    and "generateContent w client (mk_request (replace_anchored data_uri_re base64Image)) =
           Inr response"
    and "response_text response = None \<or> response_text response = Some []"
  shows "fst (analyzeFrame w base64Image s) =
     Inr (JObj [(js ''status'', JStr (js ''ERROR'')),
                (js ''message'', JStr (js ''No response from AI'')),
                (js ''confidence'', JNum 0)])"
proof -
  from assms(4) have "falsy (response_text response)"
    by (auto simp: falsy_def)
  from analyzeFrame_no_text [OF assms(1-3) this] show ?thesis
    by (simp add: error_result_def js_def)
qed

theorem empty_response_gives_error_result_witness:
  "passes_validation frame_jpeg \<and>
   fst (analyzeFrame (world_answering None) frame_jpeg initial) =
     Inr (JObj [(js ''status'', JStr (js ''ERROR'')),
                (js ''message'', JStr (js ''No response from AI'')),
                (js ''confidence'', JNum 0)]) \<and>
   fst (analyzeFrame (world_answering (Some [])) frame_jpeg initial) =
     Inr (JObj [(js ''status'', JStr (js ''ERROR'')),
                (js ''message'', JStr (js ''No response from AI'')),
                (js ''confidence'', JNum 0)])"
  using frames_pass_validation(2)
    empty_response_gives_error_result [OF frames_pass_validation(2)
      getAIClient_world_answering generateContent_world_answering, of None]
    empty_response_gives_error_result [OF frames_pass_validation(2)
      getAIClient_world_answering generateContent_world_answering, of "Some []"]
  by simp

section \<open>The payload\<close>

text \<open>
  Claim C4. For every valid input for which a client is there, one request goes to the
  service, and its image payload is the input without one leading prefix
  \<^verbatim>\<open>data:image/png;base64,\<close>, \<^verbatim>\<open>data:image/jpeg;base64,\<close> or \<^verbatim>\<open>data:image/jpg;base64,\<close>: if
  the input is such a prefix followed by a rest, the payload is that rest (a second
  prefix in the rest stays), and if the input starts with none of the three, the payload
  is the input, code unit for code unit.
\<close>

theorem payload_is_input_without_prefix:
  assumes "passes_validation base64Image" and "getAIClient w s = (Inr client, s', evs)"
  shows "\<exists>payload. payloads (snd (snd (analyzeFrame w base64Image s))) = [payload] \<and>
     (\<forall>p \<in> set data_uri_prefixes. \<forall>rest. base64Image = p @ rest \<longrightarrow> payload = rest) \<and>
     ((\<nexists>p rest. p \<in> set data_uri_prefixes \<and> base64Image = p @ rest) \<longrightarrow>
        payload = base64Image)"
proof (intro exI conjI)
  show "payloads (snd (snd (analyzeFrame w base64Image s))) =
      [replace_anchored data_uri_re base64Image]"
    by (rule analyzeFrame_payloads [OF assms])
  show "\<forall>p \<in> set data_uri_prefixes. \<forall>rest. base64Image = p @ rest \<longrightarrow>
      replace_anchored data_uri_re base64Image = rest"
    by (auto simp: replace_strips_prefix)
  show "(\<nexists>p rest. p \<in> set data_uri_prefixes \<and> base64Image = p @ rest) \<longrightarrow>
      replace_anchored data_uri_re base64Image = base64Image"
    using replace_keeps_other [of base64Image] by blast
qed

theorem payload_is_input_without_prefix_witness:
  "passes_validation frame_jpeg \<and>
   payloads (snd (snd (analyzeFrame (world_answering (Some focused_text)) frame_jpeg initial))) =
     [payload_example] \<and>
   payloads (snd (snd (analyzeFrame (world_answering (Some focused_text)) frame_png initial))) =
     [payload_example] \<and>
   payloads (snd (snd (analyzeFrame (world_answering (Some focused_text)) payload_example initial))) =
     [payload_example] \<and>
   payloads (snd (snd (analyzeFrame (world_answering (Some focused_text)) frame_webp initial))) =
     [frame_webp]"
proof -
  have jpeg: "js ''data:image/jpeg;base64,'' \<in> set data_uri_prefixes"
    and png: "js ''data:image/png;base64,'' \<in> set data_uri_prefixes"
    by (simp_all add: data_uri_prefixes_def)
  show ?thesis
    using frames_pass_validation(2) jpeg png frame_webp_no_prefix payload_example_no_prefix
      payload_is_input_without_prefix [OF frames_pass_validation(2) getAIClient_world_answering,
        of "Some focused_text"]
      payload_is_input_without_prefix [OF frames_pass_validation(3) getAIClient_world_answering,
        of "Some focused_text"]
      payload_is_input_without_prefix [OF frames_pass_validation(1) getAIClient_world_answering,
        of "Some focused_text"]
      payload_is_input_without_prefix [OF frames_pass_validation(4) getAIClient_world_answering,
        of "Some focused_text"]
    unfolding frame_jpeg_def frame_png_def
    by (metis (no_types, lifting))
qed

section \<open>The parsed response\<close>

text \<open>
  Claim C5. For every response text that is not empty and that \<^verbatim>\<open>JSON.parse\<close> parses,
  \<^verbatim>\<open>analyzeFrame\<close> returns the parsed value as it is: whatever value the parser gives,
  with or without the fields of an AnalysisResult, that value is the result. In
  particular the response \<^verbatim>\<open>{"status":"FOCUSED","message":...,"confidence":0.92}\<close> of the
  specification comes back unchanged.
\<close>

theorem parsed_response_returned_unchanged:
  assumes "passes_validation base64Image"
    and "getAIClient w s = (Inr client, s', evs)"
    and "generateContent w client (mk_request (replace_anchored data_uri_re base64Image)) =
           Inr response"
    and "response_text response = Some t" and "t \<noteq> []"
    and "JSON_parse w t = Inr result"
  shows "fst (analyzeFrame w base64Image s) = Inr result"
  using analyzeFrame_parsed [OF assms] by simp

theorem parsed_response_returned_unchanged_witness:
  "passes_validation frame_jpeg \<and>
   JSON_parse (world_answering (Some focused_text)) focused_text =
     Inr (JObj [(js ''status'', JStr (js ''FOCUSED'')),
                (js ''message'', JStr [0x5F88, 0x68D2, 0xFF0C, 0x7EE7, 0x7EED, 0x4FDD, 0x6301]),
                (js ''confidence'', JNum 0.92)]) \<and>
   fst (analyzeFrame (world_answering (Some focused_text)) frame_jpeg initial) =
     Inr (JObj [(js ''status'', JStr (js ''FOCUSED'')),
                (js ''message'', JStr [0x5F88, 0x68D2, 0xFF0C, 0x7EE7, 0x7EED, 0x4FDD, 0x6301]),
                (js ''confidence'', JNum 0.92)]) \<and>
   fst (analyzeFrame (world_answering (Some overconfident_text)) frame_jpeg initial) =
     Inr (JObj [(js ''status'', JStr (js ''FOCUSED'')),
                (js ''message'', JStr (js ''ok'')),
                (js ''confidence'', JNum 5)])"
  using frames_pass_validation(2)
    parsed_response_returned_unchanged [OF frames_pass_validation(2)
      getAIClient_world_answering generateContent_world_answering,
      of "Some focused_text" focused_text focused_value]
    parsed_response_returned_unchanged [OF frames_pass_validation(2)
      getAIClient_world_answering generateContent_world_answering,
      of "Some overconfident_text" overconfident_text overconfident_value]
  by (simp add: JSON_parse_world_answering JSON_parse_examples_simps example_texts_not_empty
      focused_value_def overconfident_value_def)


section \<open>The missing credential\<close>

text \<open>
  Claim C3. If no credential is configured (\<^verbatim>\<open>process.env.API_KEY\<close> is absent or empty, in
  this call and in every call before it since the module was loaded), \<^verbatim>\<open>analyzeFrame\<close>
  with a valid image returns, and does not throw, the result with status ERROR, the
  message \<^verbatim>\<open>API Key is missing. Please check Vercel settings.\<close> and confidence 0. The
  module state stays the initial one and the error is written to the console; no client
  is built and no request is issued.
\<close>

theorem missing_credential_gives_error_result:
  assumes "\<forall>(w', img') \<in> set before. API_KEY w' = None \<or> API_KEY w' = Some []"
    and "API_KEY w = None \<or> API_KEY w = Some []"
    and "passes_validation base64Image"
  shows "analyzeFrame w base64Image (state_after before initial) =
     (Inr (JObj [(js ''status'', JStr (js ''ERROR'')),
                 (js ''message'', JStr (js ''API Key is missing. Please check Vercel settings.'')),
                 (js ''confidence'', JNum 0)]),
      initial, [Logged (Error (js ''API Key is missing. Please check Vercel settings.''))])"
proof -
  have s: "state_after before initial = initial"
    using assms(1) by (intro state_after_unset) (auto simp: falsy_iff)
  from assms(2) have "falsy (API_KEY w)" by (auto simp: falsy_def)
  then show ?thesis
    unfolding s using assms(3) by (simp add: analyzeFrame_unset)
qed

theorem missing_credential_gives_error_result_witness:
  "passes_validation frame_jpeg \<and> API_KEY world_unset = None \<and>
   analyzeFrame world_unset frame_jpeg initial =
     (Inr (JObj [(js ''status'', JStr (js ''ERROR'')),
                 (js ''message'', JStr (js ''API Key is missing. Please check Vercel settings.'')),
                 (js ''confidence'', JNum 0)]),
      initial, [Logged (Error (js ''API Key is missing. Please check Vercel settings.''))]) \<and>
   analyzeFrame world_unset frame_jpeg
       (state_after [(world_unset, frame_png), (world_unset, [])] initial) =
     (Inr (JObj [(js ''status'', JStr (js ''ERROR'')),
                 (js ''message'', JStr (js ''API Key is missing. Please check Vercel settings.'')),
                 (js ''confidence'', JNum 0)]),
      initial, [Logged (Error (js ''API Key is missing. Please check Vercel settings.''))])"
  using frames_pass_validation(2) world_unset_falsy
    missing_credential_gives_error_result [of "[]" world_unset frame_jpeg]
    missing_credential_gives_error_result
      [of "[(world_unset, frame_png), (world_unset, [])]" world_unset frame_jpeg]
  by simp


text \<open>
  Claim C8. With the credential unset (in these calls and in every call before them) and
  the same configuration in both calls, two calls of \<^verbatim>\<open>analyzeFrame\<close> in sequence with the
  same valid image fail in the same way: both return the same result, whose status is
  ERROR and whose confidence is 0, with the same events, and each leaves the module
  state, in which no client is cached, as it found it.
\<close>

theorem missing_credential_fails_identically:
  assumes "\<forall>(w', img') \<in> set before. API_KEY w' = None \<or> API_KEY w' = Some []"
    and "API_KEY w1 = None \<or> API_KEY w1 = Some []"
    and "API_KEY w2 = API_KEY w1"
    and "passes_validation base64Image"
    and "s = state_after before initial"
  shows "\<exists>r evs. analyzeFrame w1 base64Image s = (Inr r, s, evs) \<and>
           analyzeFrame w2 base64Image s = (Inr r, s, evs) \<and>
           run [(w1, base64Image), (w2, base64Image)] s = ([Inr r, Inr r], s, evs @ evs) \<and>
           property (js ''status'') r = Some (JStr (js ''ERROR'')) \<and>
           property (js ''confidence'') r = Some (JNum 0) \<and>
           ai s = None"
proof -
  have "state_after before initial = initial"
    using assms(1) by (intro state_after_unset) (auto simp: falsy_iff)
  with assms(5) have s: "s = initial" by simp
  from assms(2,3) have f: "falsy (API_KEY w1)" "falsy (API_KEY w2)" by (auto simp: falsy_def)
  have "ai s = None" by (simp add: s)
  from analyzeFrame_unset [OF this f(1) assms(4)] analyzeFrame_unset [OF this f(2) assms(4)]
  show ?thesis
    by (simp add: property_def js_def s)
qed

theorem missing_credential_fails_identically_witness:
  "passes_validation frame_jpeg \<and> API_KEY world_unset = None \<and>
   run [(world_unset, frame_jpeg), (world_unset, frame_jpeg)] initial =
     ([Inr (JObj [(js ''status'', JStr (js ''ERROR'')),
                  (js ''message'', JStr (js ''API Key is missing. Please check Vercel settings.'')),
                  (js ''confidence'', JNum 0)]),
       Inr (JObj [(js ''status'', JStr (js ''ERROR'')),
                  (js ''message'', JStr (js ''API Key is missing. Please check Vercel settings.'')),
                  (js ''confidence'', JNum 0)])],
      initial,
      [Logged (Error (js ''API Key is missing. Please check Vercel settings.'')),
       Logged (Error (js ''API Key is missing. Please check Vercel settings.''))])"
proof -
  from missing_credential_fails_identically [of "[]" world_unset world_unset frame_jpeg initial]
  obtain r evs where
    a: "analyzeFrame world_unset frame_jpeg initial = (Inr r, initial, evs)"
    and r: "run [(world_unset, frame_jpeg), (world_unset, frame_jpeg)] initial =
       ([Inr r, Inr r], initial, evs @ evs)"
    using frames_pass_validation(2) world_unset_falsy by auto
  from a analyzeFrame_unset [of initial world_unset frame_jpeg]
  have "r = JObj [(js ''status'', JStr (js ''ERROR'')),
                  (js ''message'', JStr (js ''API Key is missing. Please check Vercel settings.'')),
                  (js ''confidence'', JNum 0)]"
    and "evs = [Logged (Error (js ''API Key is missing. Please check Vercel settings.''))]"
    using frames_pass_validation(2) world_unset_falsy by simp_all
  with r frames_pass_validation(2) world_unset_falsy show ?thesis by simp
qed


section \<open>Errors inside the try block\<close>

text \<open>
  Claim C1, as the specification states it: for a valid input, every error raised
  during client acquisition, the request or the parsing of the response is returned as an
  ERROR result and none is thrown to the caller. This fails: the input below is valid,
  a client is built, the request fails with an error whose message is
  \<^verbatim>\<open>Invalid frame captured (empty data)\<close>, and \<^verbatim>\<open>analyzeFrame\<close> throws that error.
\<close>

theorem service_error_with_invalid_frame_message_escapes:
  "passes_validation frame_jpeg \<and>
   getAIClient (world_failing (Error (js ''Invalid frame captured (empty data)''))) initial =
     (Inr \<lparr> apiKey = js ''example-key'' \<rparr>, \<lparr> ai = Some \<lparr> apiKey = js ''example-key'' \<rparr> \<rparr>,
      [Constructed \<lparr> apiKey = js ''example-key'' \<rparr>]) \<and>
   generateContent (world_failing (Error (js ''Invalid frame captured (empty data)'')))
       \<lparr> apiKey = js ''example-key'' \<rparr> (mk_request (replace_anchored data_uri_re frame_jpeg)) =
     Inl (Error (js ''Invalid frame captured (empty data)'')) \<and>
   fst (analyzeFrame (world_failing (Error (js ''Invalid frame captured (empty data)'')))
          frame_jpeg initial) =
     Inl (Error (js ''Invalid frame captured (empty data)''))"
  using analyzeFrame_request_fails [OF frames_pass_validation(2) getAIClient_world_failing
      generateContent_world_failing, of "Error invalid_frame"]
  by (simp add: frames_pass_validation getAIClient_world_failing generateContent_world_failing
      invalid_frame_def)


text \<open>
  Claim C1, amended. For a valid input, every error raised during client acquisition,
  the request or the handling of the response (the empty response, a failing parse) whose
  message is not exactly \<^verbatim>\<open>Invalid frame captured (empty data)\<close> is caught and returned as
  the result with status ERROR, confidence 0 and the error's message, or the fallback
  text when that message is empty; it is not thrown to the caller.
\<close>

theorem other_errors_become_error_results:
  assumes "passes_validation base64Image"
    and "getAIClient w s = (Inl e, s', evs) \<or>
         (\<exists>client. getAIClient w s = (Inr client, s', evs) \<and>
            (generateContent w client (mk_request (replace_anchored data_uri_re base64Image)) = Inl e \<or>
             (\<exists>response t.
                generateContent w client (mk_request (replace_anchored data_uri_re base64Image)) =
                  Inr response \<and>
                ((response_text response = None \<or> response_text response = Some []) \<and>
                   e = Error (js ''No response from AI'') \<or>
                 response_text response = Some t \<and> t \<noteq> [] \<and> JSON_parse w t = Inl e))))"
    and "message e \<noteq> js ''Invalid frame captured (empty data)''"
  shows "fst (analyzeFrame w base64Image s) =
     Inr (JObj [(js ''status'', JStr (js ''ERROR'')),
                (js ''message'', JStr (if message e = [] then fallback_message else message e)),
                (js ''confidence'', JNum 0)])"
proof -
  have r: "error_result e =
      JObj [(js ''status'', JStr (js ''ERROR'')),
            (js ''message'', JStr (if message e = [] then fallback_message else message e)),
            (js ''confidence'', JNum 0)]"
    by (simp add: error_result_def)
  from assms(3) have m: "message e \<noteq> invalid_frame" by (simp add: invalid_frame_def)
  from assms(2) consider
    (acquisition) "getAIClient w s = (Inl e, s', evs)"
    | (request) client where "getAIClient w s = (Inr client, s', evs)"
        "generateContent w client (mk_request (replace_anchored data_uri_re base64Image)) = Inl e"
    | (parse) client response t where "getAIClient w s = (Inr client, s', evs)"
        "generateContent w client (mk_request (replace_anchored data_uri_re base64Image)) =
           Inr response"
        "response_text response = Some t" "t \<noteq> []" "JSON_parse w t = Inl e"
    | (empty) client response where "getAIClient w s = (Inr client, s', evs)"
        "generateContent w client (mk_request (replace_anchored data_uri_re base64Image)) =
           Inr response"
        "falsy (response_text response)" "e = Error (js ''No response from AI'')"
    unfolding falsy_iff by blast
  then show ?thesis
  proof cases
    case acquisition
    from analyzeFrame_acquisition_fails [OF assms(1) this] show ?thesis by (simp add: r)
  next
    case request
    from analyzeFrame_request_fails [OF assms(1) this] m show ?thesis by (simp add: r)
  next
    case parse
    from analyzeFrame_parse_fails [OF assms(1) this] m show ?thesis by (simp add: r)
  next
    case empty
    from analyzeFrame_no_text [OF assms(1) empty(1-3)] show ?thesis by (simp add: error_result_def empty(4))
  qed
qed

theorem other_errors_become_error_results_witness:
  "passes_validation frame_jpeg \<and>
   fst (analyzeFrame world_unset frame_jpeg initial) =
     Inr (JObj [(js ''status'', JStr (js ''ERROR'')),
                (js ''message'', JStr (js ''API Key is missing. Please check Vercel settings.'')),
                (js ''confidence'', JNum 0)]) \<and>
   fst (analyzeFrame (world_failing (Error (js ''fetch failed''))) frame_jpeg initial) =
     Inr (JObj [(js ''status'', JStr (js ''ERROR'')),
                (js ''message'', JStr (js ''fetch failed'')),
                (js ''confidence'', JNum 0)]) \<and>
   fst (analyzeFrame (world_failing (Error [])) frame_jpeg initial) =
     Inr (JObj [(js ''status'', JStr (js ''ERROR'')),
                (js ''message'', JStr [0x8FDE, 0x63A5, 0x20, 0x41, 0x49, 0x20, 0x5931, 0x8D25]),
                (js ''confidence'', JNum 0)]) \<and>
   fst (analyzeFrame (world_answering (Some (js ''<html>''))) frame_jpeg initial) =
     Inr (JObj [(js ''status'', JStr (js ''ERROR'')),
                (js ''message'', JStr (js ''Unexpected token < in JSON at position 0'')),
                (js ''confidence'', JNum 0)])"
proof -
  note v = frames_pass_validation(2)
  have a: "message (Error (js ''API Key is missing. Please check Vercel settings.'')) \<noteq>
      js ''Invalid frame captured (empty data)''"
    and b: "message (Error (js ''fetch failed'')) \<noteq> js ''Invalid frame captured (empty data)''"
    and c: "message (Error []) \<noteq> js ''Invalid frame captured (empty data)''"
    and d: "message (Error (js ''Unexpected token < in JSON at position 0'')) \<noteq>
      js ''Invalid frame captured (empty data)''"
    by (simp_all add: js_def)
  have n: "js ''API Key is missing. Please check Vercel settings.'' \<noteq> []"
    "js ''fetch failed'' \<noteq> []" "js ''Unexpected token < in JSON at position 0'' \<noteq> []"
    by (simp_all add: js_def)
  from other_errors_become_error_results [OF v disjI1 a, OF getAIClient_world_unset]
  have 1: "fst (analyzeFrame world_unset frame_jpeg initial) =
     Inr (JObj [(js ''status'', JStr (js ''ERROR'')),
                (js ''message'', JStr (js ''API Key is missing. Please check Vercel settings.'')),
                (js ''confidence'', JNum 0)])"
    using n by simp
  have "\<exists>client. getAIClient (world_failing e) initial =
         (Inr client, \<lparr> ai = Some \<lparr> apiKey = js ''example-key'' \<rparr> \<rparr>,
          [Constructed \<lparr> apiKey = js ''example-key'' \<rparr>]) \<and>
       (generateContent (world_failing e) client
          (mk_request (replace_anchored data_uri_re frame_jpeg)) = Inl e \<or>
        (\<exists>response t. generateContent (world_failing e) client
            (mk_request (replace_anchored data_uri_re frame_jpeg)) = Inr response \<and>
          ((response_text response = None \<or> response_text response = Some []) \<and>
             e = Error (js ''No response from AI'') \<or>
           response_text response = Some t \<and> t \<noteq> [] \<and>
             JSON_parse (world_failing e) t = Inl e)))" for e
    by (simp add: getAIClient_world_failing generateContent_world_failing)
  note f = other_errors_become_error_results [OF v disjI2, OF this]
  from f [OF b] f [OF c]
  have 2: "fst (analyzeFrame (world_failing (Error (js ''fetch failed''))) frame_jpeg initial) =
     Inr (JObj [(js ''status'', JStr (js ''ERROR'')),
                (js ''message'', JStr (js ''fetch failed'')),
                (js ''confidence'', JNum 0)])"
    and 3: "fst (analyzeFrame (world_failing (Error [])) frame_jpeg initial) =
     Inr (JObj [(js ''status'', JStr (js ''ERROR'')),
                (js ''message'', JStr [0x8FDE, 0x63A5, 0x20, 0x41, 0x49, 0x20, 0x5931, 0x8D25]),
                (js ''confidence'', JNum 0)])"
    using n by (simp_all add: fallback_message_def)
  have "\<exists>client. getAIClient (world_answering (Some (js ''<html>''))) initial =
         (Inr client, \<lparr> ai = Some \<lparr> apiKey = js ''example-key'' \<rparr> \<rparr>,
          [Constructed \<lparr> apiKey = js ''example-key'' \<rparr>]) \<and>
       (generateContent (world_answering (Some (js ''<html>''))) client
          (mk_request (replace_anchored data_uri_re frame_jpeg)) =
            Inl (Error (js ''Unexpected token < in JSON at position 0'')) \<or>
        (\<exists>response t. generateContent (world_answering (Some (js ''<html>''))) client
            (mk_request (replace_anchored data_uri_re frame_jpeg)) = Inr response \<and>
          ((response_text response = None \<or> response_text response = Some []) \<and>
             Error (js ''Unexpected token < in JSON at position 0'') =
               Error (js ''No response from AI'') \<or>
           response_text response = Some t \<and> t \<noteq> [] \<and>
             JSON_parse (world_answering (Some (js ''<html>''))) t =
               Inl (Error (js ''Unexpected token < in JSON at position 0'')))))"
    by (simp add: getAIClient_world_answering generateContent_world_answering
        JSON_parse_world_answering JSON_parse_examples_simps example_texts_not_empty)
  from other_errors_become_error_results [OF v disjI2 d, OF this]
  have 4: "fst (analyzeFrame (world_answering (Some (js ''<html>''))) frame_jpeg initial) =
     Inr (JObj [(js ''status'', JStr (js ''ERROR'')),
                (js ''message'', JStr (js ''Unexpected token < in JSON at position 0'')),
                (js ''confidence'', JNum 0)])"
    using n by simp
  from v 1 2 3 4 show ?thesis by simp
qed


text \<open>
  Claim C10. The \<^verbatim>\<open>catch\<close> block decides by the equality of the error's message with
  \<^verbatim>\<open>Invalid frame captured (empty data)\<close>: for a valid input, an error that the request or
  \<^verbatim>\<open>JSON.parse\<close> throws is thrown on to the caller when its message is exactly that text,
  and is turned into an ERROR result otherwise. (The only error of the client
  acquisition has another message, see \<open>api_key_missing_not_invalid\<close>.) The witness has
  an input and a failing request for which the error is thrown on, and the same with one
  more space in the message, for which it is not.
\<close>

theorem catch_decides_by_message:
  assumes "passes_validation base64Image"
    and "getAIClient w s = (Inr client, s', evs)"
    and "generateContent w client (mk_request (replace_anchored data_uri_re base64Image)) = Inl e \<or>
         (\<exists>response t.
            generateContent w client (mk_request (replace_anchored data_uri_re base64Image)) =
              Inr response \<and>
            response_text response = Some t \<and> t \<noteq> [] \<and> JSON_parse w t = Inl e)"
  shows "fst (analyzeFrame w base64Image s) =
     (if message e = js ''Invalid frame captured (empty data)'' then Inl e
      else Inr (JObj [(js ''status'', JStr (js ''ERROR'')),
                      (js ''message'', JStr (if message e = [] then fallback_message else message e)),
                      (js ''confidence'', JNum 0)]))"
proof -
  have r: "error_result e =
      JObj [(js ''status'', JStr (js ''ERROR'')),
            (js ''message'', JStr (if message e = [] then fallback_message else message e)),
            (js ''confidence'', JNum 0)]"
    by (simp add: error_result_def)
  from assms(3) consider
    (request)
      "generateContent w client (mk_request (replace_anchored data_uri_re base64Image)) = Inl e"
    | (parse) response t where
        "generateContent w client (mk_request (replace_anchored data_uri_re base64Image)) =
           Inr response"
        "response_text response = Some t" "t \<noteq> []" "JSON_parse w t = Inl e"
    by blast
  then show ?thesis
  proof cases
    case request
    from analyzeFrame_request_fails [OF assms(1,2) this] show ?thesis
      by (simp add: r invalid_frame_def)
  next
    case parse
    from analyzeFrame_parse_fails [OF assms(1,2) this] show ?thesis
      by (simp add: r invalid_frame_def)
  qed
qed

theorem catch_decides_by_message_witness:
  "passes_validation frame_jpeg \<and>
   generateContent (world_failing (Error (js ''Invalid frame captured (empty data)'')))
       \<lparr> apiKey = js ''example-key'' \<rparr> (mk_request (replace_anchored data_uri_re frame_jpeg)) =
     Inl (Error (js ''Invalid frame captured (empty data)'')) \<and>
   fst (analyzeFrame (world_failing (Error (js ''Invalid frame captured (empty data)'')))
          frame_jpeg initial) =
     Inl (Error (js ''Invalid frame captured (empty data)'')) \<and>
   fst (analyzeFrame (world_failing (Error (js ''Invalid frame captured (empty data) '')))
          frame_jpeg initial) =
     Inr (JObj [(js ''status'', JStr (js ''ERROR'')),
                (js ''message'', JStr (js ''Invalid frame captured (empty data) '')),
                (js ''confidence'', JNum 0)])"
  using frames_pass_validation(2)
    catch_decides_by_message [OF frames_pass_validation(2) getAIClient_world_failing disjI1,
      OF generateContent_world_failing, of "Error (js ''Invalid frame captured (empty data)'')"]
    catch_decides_by_message [OF frames_pass_validation(2) getAIClient_world_failing disjI1,
      OF generateContent_world_failing, of "Error (js ''Invalid frame captured (empty data) '')"]
  by (simp add: generateContent_world_failing js_def)


section \<open>The cached client\<close>

text \<open>
  Claim C7. Once \<^verbatim>\<open>getAIClient\<close> has returned a handle, the handle is cached, and from
  then on every call of \<^verbatim>\<open>getAIClient\<close> returns that handle, leaves the module state as it
  is and builds nothing, in every world, so whatever the credential has become; and
  whatever calls of \<^verbatim>\<open>analyzeFrame\<close> follow, the module state stays the same, no client is
  built and every request is issued with that handle.
\<close>

theorem cached_client_is_kept:
  assumes "getAIClient w0 s0 = (Inr c, s, evs0)"
  shows "ai s = Some c \<and>
         getAIClient w s = (Inr c, s, []) \<and>
         state_after calls s = s \<and>
         constructions (snd (snd (run calls s))) = [] \<and>
         set (requesters (snd (snd (run calls s)))) \<subseteq> {c}"
proof -
  from assms have c: "ai s = Some c" by (rule getAIClient_Inr)
  with run_cached [OF c, of calls] show ?thesis
    by (simp add: getAIClient_cached state_after_def)
qed

theorem cached_client_is_kept_witness:
  "getAIClient (world_answering None) initial =
     (Inr \<lparr> apiKey = js ''example-key'' \<rparr>, \<lparr> ai = Some \<lparr> apiKey = js ''example-key'' \<rparr> \<rparr>,
      [Constructed \<lparr> apiKey = js ''example-key'' \<rparr>]) \<and>
   API_KEY world_unset = None \<and>
   getAIClient world_unset \<lparr> ai = Some \<lparr> apiKey = js ''example-key'' \<rparr> \<rparr> =
     (Inr \<lparr> apiKey = js ''example-key'' \<rparr>, \<lparr> ai = Some \<lparr> apiKey = js ''example-key'' \<rparr> \<rparr>, []) \<and>
   state_after [(world_unset, frame_jpeg), (world_failing (Error (js ''fetch failed'')), frame_png)]
       \<lparr> ai = Some \<lparr> apiKey = js ''example-key'' \<rparr> \<rparr> =
     \<lparr> ai = Some \<lparr> apiKey = js ''example-key'' \<rparr> \<rparr> \<and>
   constructions (snd (snd (run
       [(world_unset, frame_jpeg), (world_failing (Error (js ''fetch failed'')), frame_png)]
       \<lparr> ai = Some \<lparr> apiKey = js ''example-key'' \<rparr> \<rparr>))) = [] \<and>
   set (requesters (snd (snd (run
       [(world_unset, frame_jpeg), (world_failing (Error (js ''fetch failed'')), frame_png)]
       \<lparr> ai = Some \<lparr> apiKey = js ''example-key'' \<rparr> \<rparr>)))) \<subseteq> {\<lparr> apiKey = js ''example-key'' \<rparr>}"
  using getAIClient_world_answering [of None] world_unset_falsy(2)
    cached_client_is_kept [OF getAIClient_world_answering [of None], of world_unset
      "[(world_unset, frame_jpeg), (world_failing (Error (js ''fetch failed'')), frame_png)]"]
  by simp


section \<open>The range of the result\<close>

text \<open>
  Claim C9, as the specification states it: every result that \<^verbatim>\<open>analyzeFrame\<close> returns
  has a confidence between 0 and 1 and one of the four statuses. This fails: for the
  response \<^verbatim>\<open>{"status":"FOCUSED","message":"ok","confidence":5}\<close>, which the schema of the
  request allows, the result has the confidence 5.
\<close>

theorem unchecked_confidence_returned:
  "passes_validation frame_jpeg \<and>
   fst (analyzeFrame (world_answering (Some overconfident_text)) frame_jpeg initial) =
     Inr (JObj [(js ''status'', JStr (js ''FOCUSED'')),
                (js ''message'', JStr (js ''ok'')),
                (js ''confidence'', JNum 5)]) \<and>
   \<not> AnalysisResult_ok
       (JObj [(js ''status'', JStr (js ''FOCUSED'')),
              (js ''message'', JStr (js ''ok'')),
              (js ''confidence'', JNum 5)])"
  using analyzeFrame_parsed [OF frames_pass_validation(2) getAIClient_world_answering
      generateContent_world_answering, of "Some overconfident_text" overconfident_text
      overconfident_value]
    overconfident_not_ok
  by (simp add: frames_pass_validation JSON_parse_world_answering JSON_parse_examples_simps
      example_texts_not_empty overconfident_value_def)


text \<open>
  Claim C9, amended. Every result that \<^verbatim>\<open>analyzeFrame\<close> returns is either the failure
  result it builds itself, which has the status ERROR and the confidence 0 and so is
  within the ranges of an AnalysisResult, or the value parsed from the text of the
  service's response, returned without a check: its status and confidence are whatever
  the service sent.
\<close>

theorem result_is_error_result_or_parsed_response:
  assumes "fst (analyzeFrame w base64Image s) = Inr result"
  shows "property (js ''status'') result = Some (JStr (js ''ERROR'')) \<and>
         property (js ''confidence'') result = Some (JNum 0) \<and>
         AnalysisResult_ok result \<or>
         (\<exists>client s' evs response t.
            getAIClient w s = (Inr client, s', evs) \<and>
            generateContent w client (mk_request (replace_anchored data_uri_re base64Image)) =
              Inr response \<and>
            response_text response = Some t \<and> t \<noteq> [] \<and> JSON_parse w t = Inr result)"
proof -
  have v: "passes_validation base64Image"
    using assms analyzeFrame_invalid [of base64Image w s] by (cases "passes_validation base64Image") auto
  obtain g s' evs where g: "getAIClient w s = (g, s', evs)" by (cases "getAIClient w s")
  show ?thesis
  proof (cases g)
    case (Inl e)
    from analyzeFrame_acquisition_fails [OF v g [unfolded Inl]] assms
    have "result = error_result e" by simp
    then show ?thesis by (simp add: error_result_ok)
  next
    case (Inr client)
    note c = g [unfolded Inr]
    show ?thesis
    proof (cases "generateContent w client (mk_request (replace_anchored data_uri_re base64Image))")
      case (Inl e)
      from analyzeFrame_request_fails [OF v c Inl] assms
      have "result = error_result e" by (simp split: if_splits)
      then show ?thesis by (simp add: error_result_ok)
    next
      case (Inr response)
      note resp = Inr
      show ?thesis
      proof (cases "falsy (response_text response)")
        case True
        from analyzeFrame_no_text [OF v c resp True] assms
        have "result = error_result (Error (js ''No response from AI''))" by simp
        then show ?thesis by (simp add: error_result_ok)
      next
        case False
        then obtain t where t: "response_text response = Some t" "t \<noteq> []"
          by (auto simp: falsy_def split: option.splits)
        show ?thesis
        proof (cases "JSON_parse w t")
          case (Inl e)
          from analyzeFrame_parse_fails [OF v c resp t Inl] assms
          have "result = error_result e" by (simp split: if_splits)
          then show ?thesis by (simp add: error_result_ok)
        next
          case (Inr parsed)
          from analyzeFrame_parsed [OF v c resp t Inr] assms
          have "result = parsed" by simp
          with c resp t Inr show ?thesis by blast
        qed
      qed
    qed
  qed
qed

theorem result_is_error_result_or_parsed_response_witness:
  "fst (analyzeFrame world_unset frame_jpeg initial) =
     Inr (JObj [(js ''status'', JStr (js ''ERROR'')),
                (js ''message'', JStr (js ''API Key is missing. Please check Vercel settings.'')),
                (js ''confidence'', JNum 0)]) \<and>
   AnalysisResult_ok
     (JObj [(js ''status'', JStr (js ''ERROR'')),
            (js ''message'', JStr (js ''API Key is missing. Please check Vercel settings.'')),
            (js ''confidence'', JNum 0)])"
proof -
  have a: "fst (analyzeFrame world_unset frame_jpeg initial) =
     Inr (JObj [(js ''status'', JStr (js ''ERROR'')),
                (js ''message'', JStr (js ''API Key is missing. Please check Vercel settings.'')),
                (js ''confidence'', JNum 0)])"
    using analyzeFrame_unset [of initial world_unset frame_jpeg]
    by (simp add: world_unset_falsy(1) frames_pass_validation)
  from result_is_error_result_or_parsed_response [OF a] a show ?thesis
    by (simp add: getAIClient_world_unset)
qed


end
